theory Spec2Isabelle
  imports Main
begin

section \<open>Python strings\<close>

text \<open>
  Keys and addresses are ASCII strings. The functions below are the string methods the
  scripts call, restricted to ASCII: \<open>str.strip()\<close>, \<open>str.startswith\<close>, \<open>str.lower()\<close>,
  \<open>str.replace('0x', '')\<close> and the comparison \<open><\<close> of two strings (lexicographic on
  code points, a proper prefix being smaller).
\<close>

definition is_space :: "char \<Rightarrow> bool" where
  "is_space c = (c \<in> set [CHR 0x09, CHR 0x0A, CHR 0x0B, CHR 0x0C, CHR 0x0D,
                            CHR 0x1C, CHR 0x1D, CHR 0x1E, CHR 0x1F, CHR 0x20])"

definition strip :: "string \<Rightarrow> string" where
  "strip s = rev (dropWhile is_space (rev (dropWhile is_space s)))"

definition startswith :: "string \<Rightarrow> string \<Rightarrow> bool" where
  "startswith s p = (take (length p) s = p)"

definition lower_char :: "char \<Rightarrow> char" where
  "lower_char c =
     (case map_of (zip ''ABCDEFGHIJKLMNOPQRSTUVWXYZ'' ''abcdefghijklmnopqrstuvwxyz'') c of
        Some d \<Rightarrow> d
      | None \<Rightarrow> c)"

definition lower :: "string \<Rightarrow> string" where
  "lower s = map lower_char s"

fun replace_0x :: "string \<Rightarrow> string" where
  "replace_0x [] = []"
| "replace_0x [c] = [c]"
| "replace_0x (a # b # r) =
     (if a = CHR ''0'' \<and> b = CHR ''x'' then replace_0x r else a # replace_0x (b # r))"

fun str_less :: "string \<Rightarrow> string \<Rightarrow> bool" where
  "str_less [] [] = False"
| "str_less [] (y # ys) = True"
| "str_less (x # xs) [] = False"
| "str_less (x # xs) (y # ys) =
     (if x = y then str_less xs ys else (of_char x :: nat) < of_char y)"

text \<open>\<open>all(c in '0123456789abcdefABCDEF' for c in s)\<close> and its lower-case variant.\<close>

definition all_hex :: "string \<Rightarrow> bool" where
  "all_hex s = list_all (\<lambda>c. c \<in> set ''0123456789abcdefABCDEF'') s"

definition all_lower_hex :: "string \<Rightarrow> bool" where
  "all_lower_hex s = list_all (\<lambda>c. c \<in> set ''0123456789abcdef'') s"

section \<open>Loading the signing account\<close>

text \<open>
  A script either leaves through \<open>sys.exit(code)\<close> or goes on with a value.
\<close>

datatype 'a script = Exit nat | Continue 'a

text \<open>
  The module-level block of \<open>fix-oracle.py\<close> (lines 31 to 79). \<open>from_key\<close> is
  \<open>Account.from_key\<close> of the signing library: it maps a key to the address it derives,
  or raises (\<open>None\<close>). \<open>sys.exit\<close> raises \<open>SystemExit\<close>, which the handler for
  \<open>Exception\<close> does not catch, so every exit inside the \<open>try\<close> leaves with its own code;
  an exception of \<open>from_key\<close> is caught and exits with 1 as well.
\<close>

definition load_deployment_account ::
  "(string \<Rightarrow> string option) \<Rightarrow> string option \<Rightarrow> string option \<Rightarrow> string script" where
  "load_deployment_account from_key deployment_wallet deployment_key =
     (case deployment_key of
        None \<Rightarrow> Exit 1
      | Some dk \<Rightarrow>
          if dk = [] then Exit 1
          else (case deployment_wallet of
             None \<Rightarrow> Exit 1
           | Some dw \<Rightarrow>
               if dw = [] then Exit 1
               else
                 let clean_key = strip dk;
                     clean_key = (if startswith clean_key ''0x'' then drop 2 clean_key
                                  else clean_key)
                 in if length clean_key \<noteq> 64 then Exit 1
                    else if \<not> all_hex clean_key then Exit 1
                    else (case from_key (''0x'' @ clean_key) of
                            None \<Rightarrow> Exit 1
                          | Some address \<Rightarrow>
                              if lower address \<noteq> lower dw then Exit 1
                              else Continue address)))"


text \<open>
  \<open>update_price_register\<close> of \<open>pythonUpdate.py\<close> (lines 318 to 324) and
  \<open>update_swap_router\<close> of \<open>updateSwapRouter.py\<close> initialise the account the same way:
  a leading \<open>0x\<close> is cut off and the rest goes to \<open>from_key\<close>.
\<close>

definition initialize_account :: "(string \<Rightarrow> string option) \<Rightarrow> string \<Rightarrow> string option" where
  "initialize_account from_key private_key =
     from_key (if startswith private_key ''0x'' then drop 2 private_key else private_key)"

text \<open>
  \<open>main\<close> of \<open>uni-router.py\<close>, lines 355 to 386: the key is the command-line option,
  else \<open>DEPLOYMENT_KEY\<close> when it has the right format, else \<open>PRIVATE_KEY\<close>; an empty
  string counts as absent (\<open>if not private_key\<close>).
\<close>

definition valid_key_format :: "string \<Rightarrow> bool" where
  "valid_key_format key =
     (let clean_key = lower (replace_0x key)
      in length clean_key = 64 \<and> all_lower_hex clean_key)"

definition truthy :: "string option \<Rightarrow> string option" where
  "truthy k = (case k of None \<Rightarrow> None | Some s \<Rightarrow> if s = [] then None else Some s)"


section \<open>The pool key of the swap workflow\<close>

definition WETH_ADDRESS :: string where
  "WETH_ADDRESS = ''0x980B62Da83eFf3D4576C647993b0c1D7faf17c73''"

definition USDC_ADDRESS :: string where
  "USDC_ADDRESS = ''0x75faf114eafb1BDbe2F0316DF893fd58CE46AA4d''"

text \<open>
  \<open>build_pool_key\<close> of \<open>uni-router.py\<close>, lines 149 to 170. \<open>to_checksum_address\<close> is the
  library's conversion of an address to its mixed-case checksum form.
\<close>

definition build_pool_key ::
  "(string \<Rightarrow> string) \<Rightarrow> bool \<Rightarrow> string \<times> string \<times> nat \<times> nat \<times> string" where
  "build_pool_key to_checksum_address eth_to_usd =
     (let (currency0, currency1) =
            (if eth_to_usd
             then (to_checksum_address WETH_ADDRESS, to_checksum_address USDC_ADDRESS)
             else (to_checksum_address USDC_ADDRESS, to_checksum_address WETH_ADDRESS));
          (currency0, currency1) =
            (if str_less (lower currency1) (lower currency0) then (currency1, currency0)
             else (currency0, currency1))
      in (currency0, currency1, 3000, 60, ''0x0000000000000000000000000000000000000000''))"

definition currency0 :: "string \<times> string \<times> nat \<times> nat \<times> string \<Rightarrow> string" where
  "currency0 k = fst k"

definition currency1 :: "string \<times> string \<times> nat \<times> nat \<times> string \<Rightarrow> string" where
  "currency1 k = fst (snd k)"

section \<open>Python's \<open>int(x * 1.2)\<close>\<close>

text \<open>
  \<open>x * 1.2\<close> converts the integer \<open>x\<close> to a double, multiplies it by the double nearest
  to 1.2, which is \<open>0x1.3333333333333p+0 = 5404319552844595 / 2 ^ 52\<close>, and rounds the
  product to a double; \<open>int\<close> then truncates toward zero. Conversion and product are
  correctly rounded (to nearest, ties to even, 53 significant bits), so the result is
  determined by integer arithmetic. \<open>bitlen n\<close> is the number of binary digits of a
  positive \<open>n\<close> and \<open>round_sig53 n\<close> the nearest integer with at most 53 significant bits. An integer too
  large for a double, or a product that rounds to infinity, raises \<open>OverflowError\<close>
  (\<open>None\<close>).
\<close>

function bitlen :: "int \<Rightarrow> nat" where
  "bitlen n = (if n \<le> 0 then 0 else Suc (bitlen (n div 2)))"
  by pat_completeness auto
termination
  by (relation "measure nat") auto

declare bitlen.simps [simp del]

definition round_sig53 :: "int \<Rightarrow> int" where
  "round_sig53 n =
     (if bitlen n \<le> 53 then n
      else let s = bitlen n - 53; q = n div 2 ^ s; r = n mod 2 ^ s; h = 2 ^ (s - 1)
           in (if h < r \<or> (r = h \<and> odd q) then q + 1 else q) * 2 ^ s)"

definition int_times_1_2 :: "int \<Rightarrow> int option" where
  "int_times_1_2 x =
     (let a = round_sig53 \<bar>x\<bar>
      in if 2 ^ 1024 \<le> a then None
         else let p = round_sig53 (a * 5404319552844595)
              in if 2 ^ 1076 \<le> p then None
                 else Some (sgn x * (p div 2 ^ 52)))"

text \<open>
  Formatting an integer with \<open>:.2f\<close> converts it to a double first and raises
  \<open>OverflowError\<close> when it rounds to \<open>2 ^ 1024\<close> or more.
\<close>

definition int_too_large_for_float :: "int \<Rightarrow> bool" where
  "int_too_large_for_float n = (2 ^ 1024 - 2 ^ 970 \<le> \<bar>n\<bar>)"

text \<open>
  \<open>w3.from_wei\<close> returns 0 for 0 and raises \<open>ValueError\<close> for a number below 0 or above
  \<open>2 ^ 256 - 1\<close>. The true division \<open>n / 100\<close> of an integer raises \<open>OverflowError\<close> when
  the quotient rounds to \<open>2 ^ 1024\<close> or more.
\<close>

definition from_wei_raises :: "int \<Rightarrow> bool" where
  "from_wei_raises n = (n < 0 \<or> 2 ^ 256 \<le> n)"

definition div_100_raises :: "int \<Rightarrow> bool" where
  "div_100_raises n = (100 * (2 ^ 1024 - 2 ^ 970) \<le> \<bar>n\<bar>)"

section \<open>The world outside the script\<close>

text \<open>
  A script run talks to the RPC node, to the price-feed service and to the signing
  library. Their answers are the fields of \<open>world\<close>; \<open>None\<close> is a raised exception
  (an unreachable node, a revert, a timeout, a rejected key or address). A field answers
  the same way every time it is asked within one run, apart from \<open>getPriceUnsafe\<close>, which
  is indexed by the number of the read, since the update in between changes it.

  The body of a response of the feed service is a JSON value. Numbers are integers here:
  the scripts use a number of the body only for its truth value or inside a \<open>try\<close> of its
  own.
\<close>

datatype json =
    JNull | JBool bool | JNum int | JStr string | JList "json list"
  | JObj "(string \<times> json) list"

record transaction =
  tx_from :: string
  tx_nonce :: int
  tx_gas :: int
  tx_gasPrice :: int
  tx_value :: int

record price_data =
  price_in_cents :: int
  price_formatted :: string

record world =
  is_connected :: bool
  chain_id :: "int option"
  block_number :: "int option"
  hermes :: "json option"
  fetch_eth_price :: "price_data option"
  getPriceUnsafe :: "nat \<Rightarrow> (int \<times> int \<times> int \<times> int) option"
  getUpdateFee :: "int option"
  get_transaction_count :: "int option"
  estimate_gas :: "int option"
  gas_price :: "int option"
  get_balance :: "int option"
  from_key :: "string \<Rightarrow> string option"
  to_checksum_address :: "string \<Rightarrow> string option"
  sign_transaction :: "transaction \<Rightarrow> string \<Rightarrow> string option"
  send_raw_transaction :: "string \<Rightarrow> string option"
  wait_for_transaction_receipt :: "int option"
  getPrice :: "int option"
  getSource :: "string option"
  getData :: "(int \<times> string) option"
  getPriceRegister :: "string option"
  pythOracle :: "string option"
  call_updateBytes :: "unit option"

text \<open>
  What a run does to the outside is a list of events, in order: the calls the script
  makes to the node and to the feed service, and the outcome, warning and error lines it
  prints (progress and debug lines are left out). A call is listed where the script asks
  for it; requests the client library adds on its own account, such as the chain id it
  looks up for a call, are not listed. \<open>SendRawTransaction\<close> is the broadcast; it carries
  the transaction that was signed.
\<close>

datatype rpc =
    IsConnected | ChainId | BlockNumber | HermesLatest | GetPriceUnsafe | GetUpdateFee
  | GetTransactionCount | EstimateGas | GasPrice | GetBalance
  | SendRawTransaction transaction | WaitForTransactionReceipt
  | GetPrice | GetSource | GetData | GetPriceRegister | PythOracle | CallUpdateBytes

datatype event = Call rpc | Say string

definition prepend :: "event list \<Rightarrow> 'a \<times> event list \<Rightarrow> 'a \<times> event list" where
  "prepend es r = (fst r, es @ snd r)"

definition broadcasts :: "event list \<Rightarrow> transaction list" where
  "broadcasts t = concat (map (\<lambda>e. case e of Call (SendRawTransaction x) \<Rightarrow> [x] | _ \<Rightarrow> []) t)"

definition network_calls :: "event list \<Rightarrow> rpc list" where
  "network_calls t = concat (map (\<lambda>e. case e of Call c \<Rightarrow> [c] | Say m \<Rightarrow> []) t)"

section \<open>The oracle fix script (\<open>fix-oracle.py\<close>)\<close>

text \<open>
  \<open>bytes.fromhex\<close>: pairs of hex digits, white space allowed between the pairs; anything
  else raises \<open>ValueError\<close>.
\<close>

definition hex_val :: "char \<Rightarrow> nat option" where
  "hex_val c =
     map_of (zip ''0123456789abcdefABCDEF''
                 [0, 1, 2, 3, 4, 5, 6, 7, 8, 9, 10, 11, 12, 13, 14, 15, 10, 11, 12, 13, 14, 15]) c"

definition is_ascii_space :: "char \<Rightarrow> bool" where
  "is_ascii_space c = (c \<in> set [CHR 0x09, CHR 0x0A, CHR 0x0B, CHR 0x0C, CHR 0x0D, CHR 0x20])"

fun bytes_fromhex :: "string \<Rightarrow> nat list option" where
  "bytes_fromhex [] = Some []"
| "bytes_fromhex [c] = (if is_ascii_space c then Some [] else None)"
| "bytes_fromhex (a # b # r) =
     (if is_ascii_space a then bytes_fromhex (b # r)
      else (case (hex_val a, hex_val b) of
              (Some h, Some l) \<Rightarrow> map_option (\<lambda>bs. (16 * h + l) # bs) (bytes_fromhex r)
            | _ \<Rightarrow> None))"

text \<open>
  What the scripts do with a JSON value: \<open>d.get(k)\<close> on an object (the parser keeps the
  last of two equal keys), the truth value, whether \<open>len\<close> is defined, and \<open>x[0]\<close>, which
  is the first entry of a list and the first character of a string and raises on
  everything else.
\<close>

definition dict_get :: "(string \<times> json) list \<Rightarrow> string \<Rightarrow> json option" where
  "dict_get d k = map_of (rev d) k"

fun truth :: "json \<Rightarrow> bool" where
  "truth JNull = False"
| "truth (JBool b) = b"
| "truth (JNum n) = (n \<noteq> 0)"
| "truth (JStr s) = (s \<noteq> [])"
| "truth (JList xs) = (xs \<noteq> [])"
| "truth (JObj d) = (d \<noteq> [])"

fun has_len :: "json \<Rightarrow> bool" where
  "has_len (JStr s) = True"
| "has_len (JList xs) = True"
| "has_len (JObj d) = True"
| "has_len v = False"

fun index0 :: "json \<Rightarrow> json option" where
  "index0 (JList (x # xs)) = Some x"
| "index0 (JStr (c # cs)) = Some (JStr [c])"
| "index0 v = None"

text \<open>
  Lines 147 to 195 of \<open>fetch_hermes_data\<close>: the update blob of a response body, or \<open>None\<close>
  when a line raises. Line 148 calls \<open>.get\<close> on \<open>data\<close> and on \<open>data['binary']\<close> and \<open>len\<close> on
  its \<open>'data'\<close>; line 150 raises unless both are true; line 153 takes the first entry;
  line 154 takes the first entry of \<open>'parsed'\<close> (of \<open>[{}]\<close> when the key is absent) and
  line 156 calls \<open>.get\<close> on it. The price of that entry is only printed, inside a \<open>try\<close> of
  its own, so it has no part in the result. Lines 179 to 186 need a string and decode
  it.
\<close>

definition hermes_update_data :: "json \<Rightarrow> nat list option" where
  "hermes_update_data data =
     (case data of
        JObj d \<Rightarrow>
          (case dict_get d ''binary'' of
             Some (JObj b) \<Rightarrow>
               (case dict_get b ''data'' of
                  None \<Rightarrow> None
                | Some binary_data \<Rightarrow>
                    if \<not> has_len binary_data then None
                    else if \<not> truth binary_data then None
                    else (case index0 binary_data of
                       None \<Rightarrow> None
                     | Some update_data \<Rightarrow>
                         (case (case dict_get d ''parsed'' of
                                  None \<Rightarrow> Some (JObj [])
                                | Some parsed \<Rightarrow> index0 parsed) of
                            Some (JObj parsed_data) \<Rightarrow>
                              (case update_data of
                                 JStr update_data \<Rightarrow>
                                   bytes_fromhex (if startswith update_data ''0x''
                                                  then drop 2 update_data else update_data)
                               | _ \<Rightarrow> None)
                          | _ \<Rightarrow> None)))
           | _ \<Rightarrow> None)
      | _ \<Rightarrow> None)"

text \<open>
  \<open>fetch_hermes_data\<close>, lines 131 to 202. A failed request and every exception end in
  \<open>return None\<close>.
\<close>

definition fetch_hermes_data :: "world \<Rightarrow> nat list list option \<times> event list" where
  "fetch_hermes_data w =
     prepend [Call HermesLatest]
       (case hermes w of
          None \<Rightarrow> (None, [Say ''Error fetching Hermes data''])
        | Some data \<Rightarrow>
            (case hermes_update_data data of
               None \<Rightarrow> (None, [Say ''Error fetching Hermes data''])
             | Some update_data_bytes \<Rightarrow> (Some [update_data_bytes], [])))"

text \<open>
  \<open>test_price_reading\<close>, lines 204 to 240; \<open>i\<close> is the number of the read. With a
  negative exponent \<open>10 ** expo\<close> is a float and the prints cannot fail; otherwise the
  scaled values are integers and \<open>:.2f\<close> raises on one too large for a double, after the
  success line has been printed.
\<close>

definition test_price_reading :: "world \<Rightarrow> nat \<Rightarrow> bool \<times> event list" where
  "test_price_reading w i =
     prepend [Call GetPriceUnsafe]
       (case getPriceUnsafe w i of
          None \<Rightarrow> (False, [Say ''Price reading failed''])
        | Some (price, conf, expo, publish_time) \<Rightarrow>
            if 0 \<le> expo \<and> (int_too_large_for_float (price * 10 ^ nat expo)
                           \<or> int_too_large_for_float (conf * 10 ^ nat expo))
            then (False, [Say ''SUCCESS! Price reading works!'', Say ''Price reading failed''])
            else (True, [Say ''SUCCESS! Price reading works!'']))"

text \<open>
  \<open>update_price_feed\<close>, lines 242 to 341, for the global \<open>account\<close> and \<open>private_key\<close>.
  One \<open>try\<close> spans the body: every exception but that of the gas estimate ends in
  \<open>return False\<close>, also those of \<open>w3.from_wei\<close> in the prints of the fee (line 265), of
  the gas price (line 288), of the cost (line 300, before the balance is asked) and of
  the balance (line 306). \<open>build_transaction\<close> returns the fields it is given as they
  are.
\<close>

definition update_price_feed ::
  "world \<Rightarrow> string \<Rightarrow> string \<Rightarrow> nat list list \<Rightarrow> bool \<times> event list" where
  "update_price_feed w account_address private_key update_data =
     prepend [Call GetUpdateFee]
       (case getUpdateFee w of
          None \<Rightarrow> (False, [Say ''Error updating price feed''])
        | Some fee \<Rightarrow>
            if from_wei_raises fee then (False, [Say ''Error updating price feed''])
            else
     prepend [Call GetTransactionCount]
       (case get_transaction_count w of
          None \<Rightarrow> (False, [Say ''Error updating price feed''])
        | Some nonce \<Rightarrow>
     prepend [Call EstimateGas]
       (let (gas_estimate, said) =
              (case estimate_gas w of
                 Some g \<Rightarrow> (g, [])
               | None \<Rightarrow> (150000, [Say ''Gas estimation failed'']))
        in prepend said (
     prepend [Call GasPrice]
       (case gas_price w of
          None \<Rightarrow> (False, [Say ''Error updating price feed''])
        | Some gp \<Rightarrow>
            if from_wei_raises gp then (False, [Say ''Error updating price feed''])
            else
            let transaction = \<lparr>tx_from = account_address, tx_nonce = nonce,
                               tx_gas = gas_estimate + 50000, tx_gasPrice = gp,
                               tx_value = fee\<rparr>;
                required = tx_gas transaction * tx_gasPrice transaction + tx_value transaction
            in if from_wei_raises required then (False, [Say ''Error updating price feed''])
               else
     prepend [Call GetBalance]
       (case get_balance w of
          None \<Rightarrow> (False, [Say ''Error updating price feed''])
        | Some balance \<Rightarrow>
            if from_wei_raises balance then (False, [Say ''Error updating price feed''])
            else if balance < required then (False, [Say ''Insufficient balance!''])
               else (case sign_transaction w transaction private_key of
                  None \<Rightarrow> (False, [Say ''Error updating price feed''])
                | Some raw_transaction \<Rightarrow>
     prepend [Call (SendRawTransaction transaction)]
       (case send_raw_transaction w raw_transaction of
          None \<Rightarrow> (False, [Say ''Error updating price feed''])
        | Some tx_hash \<Rightarrow>
     prepend [Call WaitForTransactionReceipt]
       (case wait_for_transaction_receipt w of
          None \<Rightarrow> (False, [Say ''Error updating price feed''])
        | Some status \<Rightarrow>
            if status = 1 then (True, [Say ''Price feed updated successfully!''])
            else (False, [Say ''Transaction failed'']))))))))))"

text \<open>
  \<open>main\<close>, lines 343 to 388. It returns on every path, so the process ends with exit
  code 0; the model returns the events.
\<close>

definition main_fix_oracle :: "world \<Rightarrow> string \<Rightarrow> string \<Rightarrow> event list" where
  "main_fix_oracle w account_address private_key =
     (let (working, t1) = test_price_reading w 0
      in if working then t1 @ [Say ''Oracle is already working! No fix needed.'']
         else
           let (update_data, t2) = fetch_hermes_data w
           in (case update_data of
                 None \<Rightarrow> t1 @ t2 @ [Say ''Failed to fetch update data'']
               | Some update_data \<Rightarrow>
                   let (updated, t3) = update_price_feed w account_address private_key update_data
                   in if updated
                      then let (verified, t4) = test_price_reading w 1
                           in t1 @ t2 @ t3 @ t4 @
                              [if verified then Say ''SUCCESS! Oracle fix completed successfully!''
                               else Say ''Fix may need more time to propagate'']
                      else t1 @ t2 @ t3 @ [Say ''Fix failed - please try again'']))"


section \<open>The price register updater (\<open>pythonUpdate.py\<close>)\<close>

text \<open>\<open>get_web3_connection\<close>, lines 187 to 212: \<open>True\<close> stands for the connection object.\<close>

definition get_web3_connection :: "world \<Rightarrow> bool \<times> event list" where
  "get_web3_connection w =
     prepend [Call IsConnected]
       (if \<not> is_connected w then (False, [Say ''Blockchain connection error''])
        else prepend [Call ChainId]
          (case chain_id w of
             None \<Rightarrow> (False, [Say ''Blockchain connection error''])
           | Some cid \<Rightarrow> prepend [Call BlockNumber]
               (case block_number w of
                  None \<Rightarrow> (False, [Say ''Blockchain connection error''])
                | Some bn \<Rightarrow> (True, []))))"

text \<open>
  The block \<open>getPrice\<close>, \<open>getSource\<close> inside a \<open>try\<close> of its own, which
  \<open>update_price_register\<close> runs before and after the update: a failure prints \<open>msg\<close> and
  the function goes on.
\<close>

definition try_read_price_and_source :: "world \<Rightarrow> string \<Rightarrow> event list" where
  "try_read_price_and_source w msg =
     Call GetPrice #
       (case getPrice w of
          None \<Rightarrow> [Say msg]
        | Some p \<Rightarrow> Call GetSource # (case getSource w of None \<Rightarrow> [Say msg] | Some src \<Rightarrow> []))"

text \<open>
  \<open>read_price_register\<close>, lines 214 to 296. Line 254 divides a price above 1000 by 100
  and line 259 formats the result with \<open>:,.2f\<close>; either raises on a value too large for
  a double, inside the inner \<open>try\<close>.
\<close>

definition read_price_register :: "world \<Rightarrow> string option \<Rightarrow> bool \<times> event list" where
  "read_price_register w PRICE_REGISTER_ADDRESS =
     (case truthy PRICE_REGISTER_ADDRESS of
        None \<Rightarrow> (False, [Say ''PRICE_REGISTER_ADDRESS environment variable not set''])
      | Some contract_address \<Rightarrow>
          let (w3, t) = get_web3_connection w
          in if \<not> w3 then (False, t)
             else prepend t
               (case to_checksum_address w contract_address of
                  None \<Rightarrow> (False, [Say ''Read error''])
                | Some address \<Rightarrow>
             prepend [Call GetPrice]
               (case getPrice w of
                  None \<Rightarrow> (False, [Say ''Failed to read contract data''])
                | Some current_price \<Rightarrow>
             prepend [Call GetSource]
               (case getSource w of
                  None \<Rightarrow> (False, [Say ''Failed to read contract data''])
                | Some current_source \<Rightarrow>
             prepend [Call GetData]
               (case getData w of
                  None \<Rightarrow> (False, [Say ''Failed to read contract data''])
                | Some (price_data, source_data) \<Rightarrow>
             prepend ((if current_price \<noteq> price_data \<or> current_source \<noteq> source_data
                       then [Say ''Inconsistent data between individual and combined calls'']
                       else [])
                      @ [Say ''Successfully read from PriceRegister contract!''])
               (if (if 1000 < current_price then div_100_raises current_price
                    else int_too_large_for_float current_price)
                then (False, [Say ''Failed to read contract data''])
                else
             prepend [Call ChainId]
               (case chain_id w of
                  None \<Rightarrow> (False, [Say ''Failed to read contract data''])
                | Some cid \<Rightarrow>
             prepend [Call BlockNumber]
               (case block_number w of
                  None \<Rightarrow> (False, [Say ''Failed to read contract data''])
                | Some bn \<Rightarrow> (True, [])))))))))"

text \<open>
  \<open>update_price_register\<close>, lines 298 to 418. \<open>w3.from_wei\<close> is applied to the balance
  before the balance is tested (line 330), and to the gas cost inside the \<open>try\<close> of the
  estimate (line 374). The dictionary given to
  \<open>build_transaction\<close> is evaluated in order: the nonce is read before the gas price.
\<close>

definition update_price_register ::
  "world \<Rightarrow> string option \<Rightarrow> string option \<Rightarrow> price_data \<Rightarrow> bool \<times> event list" where
  "update_price_register w DEPLOYMENT_KEY PRICE_REGISTER_ADDRESS price_data =
     (case truthy DEPLOYMENT_KEY of
        None \<Rightarrow> (False, [Say ''DEPLOYMENT_KEY environment variable not set''])
      | Some private_key \<Rightarrow>
     (case truthy PRICE_REGISTER_ADDRESS of
        None \<Rightarrow> (False, [Say ''PRICE_REGISTER_ADDRESS environment variable not set''])
      | Some contract_address \<Rightarrow>
          let (w3, t) = get_web3_connection w
          in if \<not> w3 then (False, t)
             else prepend t
               (let private_key = (if startswith private_key ''0x'' then drop 2 private_key
                                   else private_key)
                in case from_key w private_key of
                  None \<Rightarrow> (False, [Say ''Update error''])
                | Some wallet_address \<Rightarrow>
             prepend [Call GetBalance]
               (case get_balance w of
                  None \<Rightarrow> (False, [Say ''Update error''])
                | Some balance \<Rightarrow>
                    if from_wei_raises balance then (False, [Say ''Update error''])
                    else if balance = 0
                    then (False, [Say ''Insufficient ETH balance for gas fees''])
                    else (case to_checksum_address w contract_address of
                  None \<Rightarrow> (False, [Say ''Update error''])
                | Some address \<Rightarrow>
             prepend (try_read_price_and_source w ''Could not read current contract state''
                      @ [Call GetTransactionCount])
               (case get_transaction_count w of
                  None \<Rightarrow> (False, [Say ''Update error''])
                | Some nonce \<Rightarrow>
             prepend [Call GasPrice]
               (case gas_price w of
                  None \<Rightarrow> (False, [Say ''Update error''])
                | Some gp \<Rightarrow>
                    (case int_times_1_2 gp of
                  None \<Rightarrow> (False, [Say ''Update error''])
                | Some buffered \<Rightarrow>
                    let transaction = \<lparr>tx_from = wallet_address, tx_nonce = nonce, tx_gas = 0,
                                       tx_gasPrice = buffered, tx_value = 0\<rparr>
                    in
             prepend [Call EstimateGas]
               (case estimate_gas w of
                  None \<Rightarrow> (False, [Say ''Gas estimation failed''])
                | Some gas_estimate \<Rightarrow>
                    (case int_times_1_2 gas_estimate of
                  None \<Rightarrow> (False, [Say ''Gas estimation failed''])
                | Some gas \<Rightarrow>
                    let transaction = transaction\<lparr>tx_gas := gas\<rparr>
                    in if from_wei_raises (tx_gas transaction * tx_gasPrice transaction)
                       then (False, [Say ''Gas estimation failed''])
                       else (case sign_transaction w transaction private_key of
                  None \<Rightarrow> (False, [Say ''Transaction error''])
                | Some raw_tx \<Rightarrow>
             prepend [Call (SendRawTransaction transaction)]
               (case send_raw_transaction w raw_tx of
                  None \<Rightarrow> (False, [Say ''Transaction error''])
                | Some tx_hash \<Rightarrow>
             prepend [Call WaitForTransactionReceipt]
               (case wait_for_transaction_receipt w of
                  None \<Rightarrow> (False, [Say ''Transaction error''])
                | Some status \<Rightarrow>
                    if status = 1
                    then (True, try_read_price_and_source w ''Could not verify contract update'')
                    else (False, [Say ''Transaction failed'']))))))))))))))"

text \<open>
  \<open>main\<close>, lines 420 to 482; \<open>argv\<close> is \<open>sys.argv\<close>. Every path ends in \<open>sys.exit\<close>.
  \<open>fetch_eth_price\<close> computes the price in floating point; its result is taken from the
  world, \<open>None\<close> when it failed.
\<close>

definition main_pythonUpdate ::
  "world \<Rightarrow> string option \<Rightarrow> string option \<Rightarrow> string list \<Rightarrow> nat \<times> event list" where
  "main_pythonUpdate w DEPLOYMENT_KEY PRICE_REGISTER_ADDRESS argv =
     (if length argv \<noteq> 2 then (1, [Say ''Invalid arguments. Use --help for usage information.''])
      else
        let flag = argv ! 1
        in if flag = ''--help'' then (0, [])
           else if flag = ''--read''
           then (let (success, t) = read_price_register w PRICE_REGISTER_ADDRESS
                 in if success then (0, t @ [Say ''Read operation completed successfully!''])
                    else (1, t @ [Say ''Read operation failed'']))
           else if flag = ''--update''
           then prepend [Call HermesLatest]
                  (case fetch_eth_price w of
                     None \<Rightarrow> (1, [Say ''Failed to fetch price data''])
                   | Some price_data \<Rightarrow>
                       let (success, t) =
                             update_price_register w DEPLOYMENT_KEY PRICE_REGISTER_ADDRESS price_data
                       in if success then (0, t @ [Say ''Price update completed successfully!''])
                          else (1, t @ [Say ''Price update failed'']))
           else (1, [Say ''Unknown flag'']))"

section \<open>The swap router updater (\<open>updateSwapRouter.py\<close>)\<close>

definition ZERO_ADDRESS :: string where
  "ZERO_ADDRESS = ''0x0000000000000000000000000000000000000000''"

text \<open>\<open>get_web3_connection\<close> of this script (lines 162 to 184) does not read the block number.\<close>

definition get_web3_connection_sr :: "world \<Rightarrow> bool \<times> event list" where
  "get_web3_connection_sr w =
     prepend [Call IsConnected]
       (if \<not> is_connected w then (False, [Say ''Connection error''])
        else prepend [Call ChainId]
          (case chain_id w of
             None \<Rightarrow> (False, [Say ''Connection error''])
           | Some cid \<Rightarrow> (True, [])))"

text \<open>
  \<open>read_swap_router_state\<close>, lines 186 to 243. Line 228 divides the price by 100 inside
  the \<open>try\<close> of the function.
\<close>

definition read_swap_router_state :: "world \<Rightarrow> string option \<Rightarrow> bool \<times> event list" where
  "read_swap_router_state w SWAP_ROUTER_ADDRESS =
     (case truthy SWAP_ROUTER_ADDRESS of
        None \<Rightarrow> (False, [Say ''SWAP_ROUTER_ADDRESS environment variable not set''])
      | Some contract_address \<Rightarrow>
          let (w3, t) = get_web3_connection_sr w
          in if \<not> w3 then (False, t)
             else prepend t
               (case to_checksum_address w contract_address of
                  None \<Rightarrow> (False, [Say ''Read error''])
                | Some address \<Rightarrow>
             prepend [Call GetPriceRegister]
               (case getPriceRegister w of
                  None \<Rightarrow> (False, [Say ''Read error''])
                | Some price_register_addr \<Rightarrow>
             prepend [Call PythOracle]
               (let (pyth_oracle_addr, said) =
                      (case pythOracle w of
                         Some a \<Rightarrow> (a, [])
                       | None \<Rightarrow> (ZERO_ADDRESS, [Say ''Warning: Could not get Pyth Oracle address'']));
                    warn = (if pyth_oracle_addr = ZERO_ADDRESS
                            then [Say ''WARNING: No Pyth Oracle configured in SwapRouter'']
                            else [])
                in prepend said
                  (if price_register_addr \<noteq> ZERO_ADDRESS
                   then (case to_checksum_address w price_register_addr of
                      None \<Rightarrow> (False, [Say ''Read error''])
                    | Some register_address \<Rightarrow>
                 prepend [Call GetPrice]
                   (case getPrice w of
                      None \<Rightarrow> (False, [Say ''Read error''])
                    | Some current_price \<Rightarrow>
                 prepend [Call GetSource]
                   (case getSource w of
                      None \<Rightarrow> (False, [Say ''Read error''])
                    | Some current_source \<Rightarrow>
                        if div_100_raises current_price then (False, [Say ''Read error''])
                        else (True, warn))))
                   else (True, Say ''No PriceRegister connected'' # warn))))))"

text \<open>
  Lines 353 to 374 of \<open>update_swap_router\<close>: the transaction is signed and sent, the
  receipt awaited, and after a receipt with status 1 the state is read again for
  display.
\<close>

definition sign_and_send ::
  "world \<Rightarrow> string option \<Rightarrow> transaction \<Rightarrow> string \<Rightarrow> bool \<times> event list" where
  "sign_and_send w SWAP_ROUTER_ADDRESS transaction private_key =
     (case sign_transaction w transaction private_key of
        None \<Rightarrow> (False, [Say ''Update error''])
      | Some raw_tx \<Rightarrow>
     prepend [Call (SendRawTransaction transaction)]
       (case send_raw_transaction w raw_tx of
          None \<Rightarrow> (False, [Say ''Update error''])
        | Some tx_hash \<Rightarrow>
     prepend [Call WaitForTransactionReceipt]
       (case wait_for_transaction_receipt w of
          None \<Rightarrow> (False, [Say ''Update error''])
        | Some status \<Rightarrow>
            if status = 1
            then (True, snd (read_swap_router_state w SWAP_ROUTER_ADDRESS))
            else (False, [Say ''Transaction failed'']))))"

text \<open>
  \<open>update_swap_router\<close>, lines 245 to 378. The buffered gas limit is computed inside
  the \<open>try\<close> of the estimate, so an overflow there is handled like a failed estimate:
  the call is simulated, and the fixed gas limit is used when the simulation succeeds.
  \<open>w3.from_wei\<close> is applied to the balance before the balance is tested (line 270) and
  to the fee inside the \<open>try\<close> of the fee (line 303).
  \<open>fetch_pyth_data\<close> computes in floating point; the function takes its result.
\<close>

definition update_swap_router ::
  "world \<Rightarrow> string option \<Rightarrow> string option \<Rightarrow> bool \<times> event list" where
  "update_swap_router w DEPLOYMENT_KEY SWAP_ROUTER_ADDRESS =
     (case truthy DEPLOYMENT_KEY of
        None \<Rightarrow> (False, [Say ''Missing environment variables''])
      | Some private_key \<Rightarrow>
     (case truthy SWAP_ROUTER_ADDRESS of
        None \<Rightarrow> (False, [Say ''Missing environment variables''])
      | Some contract_address \<Rightarrow>
          let (w3, t) = get_web3_connection_sr w
          in if \<not> w3 then (False, t)
             else prepend t
               (let private_key = (if startswith private_key ''0x'' then drop 2 private_key
                                   else private_key)
                in case from_key w private_key of
                  None \<Rightarrow> (False, [Say ''Update error''])
                | Some wallet_address \<Rightarrow>
             prepend [Call GetBalance]
               (case get_balance w of
                  None \<Rightarrow> (False, [Say ''Update error''])
                | Some balance \<Rightarrow>
                    if from_wei_raises balance then (False, [Say ''Update error''])
                    else if balance = 0 then (False, [Say ''Insufficient ETH balance''])
                    else (case to_checksum_address w contract_address of
                  None \<Rightarrow> (False, [Say ''Update error''])
                | Some address \<Rightarrow>
             prepend [Call PythOracle]
               (case pythOracle w of
                  None \<Rightarrow> (False, [Say ''Update error''])
                | Some pyth_oracle_addr \<Rightarrow>
                    if pyth_oracle_addr = ZERO_ADDRESS
                    then (False, [Say ''Error: No Pyth Oracle configured in SwapRouter''])
                    else (case to_checksum_address w pyth_oracle_addr of
                  None \<Rightarrow> (False, [Say ''Update error''])
                | Some oracle_address \<Rightarrow>
             prepend [Call GetUpdateFee]
               (case getUpdateFee w of
                  None \<Rightarrow> (False, [Say ''Error getting update fee''])
                | Some required_fee \<Rightarrow>
                    if from_wei_raises required_fee
                    then (False, [Say ''Error getting update fee''])
                    else
             prepend [Call GetTransactionCount]
               (case get_transaction_count w of
                  None \<Rightarrow> (False, [Say ''Update error''])
                | Some nonce \<Rightarrow>
             prepend [Call GasPrice]
               (case gas_price w of
                  None \<Rightarrow> (False, [Say ''Update error''])
                | Some gp \<Rightarrow>
                    (case int_times_1_2 gp of
                  None \<Rightarrow> (False, [Say ''Update error''])
                | Some buffered \<Rightarrow>
                    let transaction = \<lparr>tx_from = wallet_address, tx_nonce = nonce, tx_gas = 0,
                                       tx_gasPrice = buffered, tx_value = required_fee\<rparr>
                    in
             prepend [Call EstimateGas]
               (case (case estimate_gas w of
                        None \<Rightarrow> None
                      | Some gas_estimate \<Rightarrow> int_times_1_2 gas_estimate) of
                  Some gas \<Rightarrow>
                    sign_and_send w SWAP_ROUTER_ADDRESS (transaction\<lparr>tx_gas := gas\<rparr>) private_key
                | None \<Rightarrow>
             prepend [Say ''Gas estimation failed'', Call CallUpdateBytes]
               (case call_updateBytes w of
                  None \<Rightarrow> (False, [Say ''Call simulation also failed''])
                | Some u \<Rightarrow>
             prepend [Say ''Call simulation succeeded - using fixed gas limit'']
               (sign_and_send w SWAP_ROUTER_ADDRESS (transaction\<lparr>tx_gas := 100000\<rparr>)
                  private_key))))))))))))))"

section \<open>The swap script (\<open>uni-router.py\<close>)\<close>


text \<open>A world in which the node and the feed service are down and the library rejects every input.\<close>

definition silent_world :: world where
  "silent_world =
     \<lparr>is_connected = False, chain_id = None, block_number = None, hermes = None,
      fetch_eth_price = None, getPriceUnsafe = (\<lambda>i. None), getUpdateFee = None,
      get_transaction_count = None, estimate_gas = None, gas_price = None,
      get_balance = None, from_key = (\<lambda>k. None), to_checksum_address = (\<lambda>a. None),
      sign_transaction = (\<lambda>t k. None), send_raw_transaction = (\<lambda>r. None),
      wait_for_transaction_receipt = None, getPrice = None, getSource = None,
      getData = None, getPriceRegister = None, pythOracle = None, call_updateBytes = None\<rparr>"

text \<open>
  A world in which everything answers: the oracle has no price yet at the first read and
  has one after the update, and the wallet holds one ether.
\<close>

definition healthy_world :: world where
  "healthy_world =
     \<lparr>is_connected = True, chain_id = Some 421614, block_number = Some 100,
      hermes = Some (JObj
        [(''binary'', JObj [(''encoding'', JStr ''hex''), (''data'', JList [JStr ''504e4155''])]),
         (''parsed'', JList [JObj [(''id'', JStr ''ff61''),
            (''price'', JObj [(''price'', JStr ''300000000000''), (''conf'', JStr ''150000000''),
                              (''expo'', JNum (- 8)), (''publish_time'', JNum 1700000000)])]])]),
      fetch_eth_price = Some \<lparr>price_in_cents = 300000, price_formatted = ''3000.0''\<rparr>,
      getPriceUnsafe = (\<lambda>i. if i = 0 then None
                             else Some (300000000000, 150000000, - 8, 1700000000)),
      getUpdateFee = Some 1, get_transaction_count = Some 7, estimate_gas = Some 100000,
      gas_price = Some 1000000000, get_balance = Some 1000000000000000000,
      from_key = (\<lambda>k. Some ''0x19E7E376E7C213B7E7e7e46cc70A5dD086DAff2A''),
      to_checksum_address = (\<lambda>a. Some a), sign_transaction = (\<lambda>t k. Some ''signed''),
      send_raw_transaction = (\<lambda>r. Some ''0xhash''), wait_for_transaction_receipt = Some 1,
      getPrice = Some 300000, getSource = Some ''python'', getData = Some (300000, ''python''),
      getPriceRegister = Some ''0x8D254a21b3C86D32F7179855531CE99164721933'',
      pythOracle = Some ''0x8D254a21b3C86D32F7179855531CE99164721933'',
      call_updateBytes = Some ()\<rparr>"

text \<open>
  The healthy world with an oracle whose stored price is within the types of its
  interface (\<open>int64\<close>, \<open>uint64\<close>, \<open>int32\<close>, \<open>uint256\<close>) and, scaled by its exponent, too
  large for a double.
\<close>

definition overflowing_world :: world where
  "overflowing_world =
     healthy_world\<lparr>getPriceUnsafe := \<lambda>i. Some (17976931348623159, 1, 292, 1)\<rparr>"

section \<open>The states of the oracle update workflow\<close>

text \<open>
  The specification names the terminal states of the workflow (section 4.4). \<open>main\<close> of
  \<open>fix-oracle.py\<close> reports the state it ends in by the line it prints last;
  \<open>terminal_state\<close> reads the state off that line.
\<close>

datatype failure = FeedUnavailable | SubmissionError | VerificationTimeout

datatype workflow_state = Succeeded | Failed failure

definition terminal_state :: "event list \<Rightarrow> workflow_state option" where
  "terminal_state t =
     (if t = [] then None
      else if last t = Say ''Oracle is already working! No fix needed.'' then Some Succeeded
      else if last t = Say ''SUCCESS! Oracle fix completed successfully!'' then Some Succeeded
      else if last t = Say ''Failed to fetch update data'' then Some (Failed FeedUnavailable)
      else if last t = Say ''Fix failed - please try again'' then Some (Failed SubmissionError)
      else if last t = Say ''Fix may need more time to propagate''
      then Some (Failed VerificationTimeout)
      else None)"

section \<open>Properties\<close>

subsection \<open>Rounding to a double\<close>

lemma bitlen_bounds: "0 < n \<Longrightarrow> 2 ^ (bitlen n - 1) \<le> n \<and> n < 2 ^ bitlen n"
proof (induction n rule: bitlen.induct)
  case (1 n)
  have bl: "bitlen n = Suc (bitlen (n div 2))" using "1.prems" by (simp add: bitlen.simps [of n])
  show ?case
  proof (cases "n div 2 \<le> 0")
    case True
    with "1.prems" have "n = 1" by presburger
    then show ?thesis by (simp add: bitlen.simps)
  next
    case False
    then have pos: "0 < n div 2" by simp
    from "1.prems" have n0: "\<not> n \<le> 0" by simp
    from "1.IH" [OF n0 pos]
    have lo: "2 ^ (bitlen (n div 2) - 1) \<le> n div 2" and hi: "n div 2 < 2 ^ bitlen (n div 2)"
      by simp_all
    have bpos: "0 < bitlen (n div 2)" using pos by (simp add: bitlen.simps [of "n div 2"])
    have "(2::int) ^ bitlen (n div 2) = 2 * 2 ^ (bitlen (n div 2) - 1)"
      using bpos by (cases "bitlen (n div 2)") simp_all
    with lo have "2 ^ bitlen (n div 2) \<le> 2 * (n div 2)" by simp
    also have "\<dots> \<le> n" by presburger
    finally have a: "2 ^ (bitlen n - 1) \<le> n" by (simp add: bl)
    have "n < 2 * (n div 2) + 2" by presburger
    also have "\<dots> \<le> 2 * 2 ^ bitlen (n div 2)" using hi by simp
    finally have b: "n < 2 ^ bitlen n" by (simp add: bl)
    from a b show ?thesis by simp
  qed
qed

lemma round_sig53_lower:
  assumes "0 \<le> n"
  shows "(2 ^ 52 - 1) * n \<le> 2 ^ 52 * round_sig53 n"
proof (cases "bitlen n \<le> 53")
  case True
  then have "round_sig53 n = n" by (simp add: round_sig53_def)
  then show ?thesis using assms by simp
next
  case False
  define s where "s = bitlen n - 53"
  define q where "q = n div 2 ^ s"
  have npos: "0 < n" using False assms by (cases "n = 0") (simp_all add: bitlen.simps)
  have "bitlen n - 1 = s + 52" using False by (simp add: s_def)
  with bitlen_bounds [OF npos] have big: "2 ^ (s + 52) \<le> n" by simp
  have qnn: "0 \<le> q" using npos by (simp add: q_def pos_imp_zdiv_nonneg_iff)
  have "q * 2 ^ s \<le> (if 2 ^ (s - 1) < n mod 2 ^ s \<or> (n mod 2 ^ s = 2 ^ (s - 1) \<and> odd q) then q + 1 else q) * 2 ^ s"
    by (simp add: mult_right_mono)
  then have ge: "q * 2 ^ s \<le> round_sig53 n"
    using False by (simp add: round_sig53_def Let_def s_def q_def)
  have "n = q * 2 ^ s + n mod 2 ^ s" unfolding q_def by (rule div_mult_mod_eq [symmetric])
  moreover have "n mod 2 ^ s < 2 ^ s" by simp
  ultimately have lt: "n < q * 2 ^ s + 2 ^ s" by linarith
  have "(2::int) ^ 52 * 2 ^ s = 2 ^ (s + 52)" by (simp add: power_add)
  with big have "2 ^ 52 * 2 ^ s \<le> n" by simp
  moreover have "2 ^ 52 * n \<le> 2 ^ 52 * (q * 2 ^ s + 2 ^ s)"
    using lt by (simp del: power_numeral)
  ultimately have "2 ^ 52 * n \<le> 2 ^ 52 * (q * 2 ^ s) + n"
    by (simp add: distrib_left del: power_numeral)
  then have "(2 ^ 52 - 1) * n \<le> 2 ^ 52 * (q * 2 ^ s)"
    by (simp add: algebra_simps)
  also have "\<dots> \<le> 2 ^ 52 * round_sig53 n" using ge by simp
  finally show ?thesis .
qed

lemma round_sig53_nonneg: "0 \<le> n \<Longrightarrow> 0 \<le> round_sig53 n"
  using round_sig53_lower [of n] by (simp add: zero_le_mult_iff)

lemma int_times_1_2_ge:
  assumes "0 \<le> x" and "int_times_1_2 x = Some g"
  shows "x \<le> g"
proof -
  define a where "a = round_sig53 x"
  define p where "p = round_sig53 (a * 5404319552844595)"
  have g: "g = sgn x * (p div 2 ^ 52)"
    using assms by (simp add: int_times_1_2_def Let_def a_def p_def split: if_splits)
  have a0: "0 \<le> a" using assms(1) by (simp add: a_def round_sig53_nonneg)
  have 1: "(2 ^ 52 - 1) * x \<le> 2 ^ 52 * a"
    unfolding a_def by (rule round_sig53_lower [OF assms(1)])
  have 2: "(2 ^ 52 - 1) * (a * 5404319552844595) \<le> 2 ^ 52 * p"
    unfolding p_def by (rule round_sig53_lower) (simp add: a0)
  have "2 ^ 52 * x \<le> p" using 1 2 assms(1) a0 by simp
  then have "(2 ^ 52 * x) div 2 ^ 52 \<le> p div 2 ^ 52" by (rule zdiv_mono1) simp
  then have "x \<le> p div 2 ^ 52" by simp
  then show ?thesis using assms(1) g by (cases "x = 0") (simp_all add: sgn_if)
qed

subsection \<open>The pool key\<close>

lemma lower_WETH: "lower WETH_ADDRESS = ''0x980b62da83eff3d4576c647993b0c1d7faf17c73''"
  by (simp add: WETH_ADDRESS_def lower_def lower_char_def)

lemma lower_USDC: "lower USDC_ADDRESS = ''0x75faf114eafb1bdbe2f0316df893fd58ce46aa4d''"
  by (simp add: USDC_ADDRESS_def lower_def lower_char_def)

lemma USDC_less_WETH: "str_less (lower USDC_ADDRESS) (lower WETH_ADDRESS)"
  by (simp add: lower_WETH lower_USDC)

lemma WETH_not_less_USDC: "\<not> str_less (lower WETH_ADDRESS) (lower USDC_ADDRESS)"
  by (simp add: lower_WETH lower_USDC)

text \<open>
  C9. For both directions the pool key has \<open>currency0\<close> strictly below \<open>currency1\<close> when
  the two addresses are compared in lower case. The checksum conversion \<open>cs\<close> of the
  library changes the case of letters only, which is all the proof needs of it, at the
  two token addresses.
\<close>

theorem pool_key_ordered:
  assumes "lower (cs WETH_ADDRESS) = lower WETH_ADDRESS"
    and "lower (cs USDC_ADDRESS) = lower USDC_ADDRESS"
  shows "str_less (lower (currency0 (build_pool_key cs eth_to_usd)))
                  (lower (currency1 (build_pool_key cs eth_to_usd)))"
  using assms USDC_less_WETH WETH_not_less_USDC
  by (cases eth_to_usd) (simp_all add: build_pool_key_def currency0_def currency1_def)

theorem pool_key_ordered_witness:
  "lower WETH_ADDRESS = lower WETH_ADDRESS \<and> lower USDC_ADDRESS = lower USDC_ADDRESS
   \<and> str_less (lower (currency0 (build_pool_key (\<lambda>a. a) True)))
               (lower (currency1 (build_pool_key (\<lambda>a. a) True)))
   \<and> str_less (lower (currency0 (build_pool_key (\<lambda>a. a) False)))
               (lower (currency1 (build_pool_key (\<lambda>a. a) False)))"
  using pool_key_ordered [of "\<lambda>a. a" True] pool_key_ordered [of "\<lambda>a. a" False]
  by simp

subsection \<open>Private keys\<close>

lemma hex_not_space: "c \<in> set ''0123456789abcdefABCDEF'' \<Longrightarrow> \<not> is_space c"
  by (auto simp: is_space_def)




lemma strip_id:
  assumes "s \<noteq> []" "\<not> is_space (hd s)" "\<not> is_space (last s)"
  shows "strip s = s"
proof -
  have 1: "dropWhile is_space s = s" using assms by (cases s) simp_all
  have "rev s \<noteq> []" "\<not> is_space (hd (rev s))" using assms by (simp_all add: hd_rev)
  then have 2: "dropWhile is_space (rev s) = rev s" by (cases "rev s") simp_all
  show ?thesis by (simp add: strip_def 1 2)
qed

lemma all_hex_D: "all_hex k \<Longrightarrow> c \<in> set k \<Longrightarrow> c \<in> set ''0123456789abcdefABCDEF''"
  by (simp add: all_hex_def list_all_iff)

lemma strip_hex:
  assumes "all_hex k" "k \<noteq> []"
  shows "strip k = k" and "strip (CHR ''0'' # CHR ''x'' # k) = CHR ''0'' # CHR ''x'' # k"
proof -
  have h: "\<not> is_space (hd k)" and l: "\<not> is_space (last k)"
    using assms by (auto intro!: hex_not_space all_hex_D [OF assms(1)])
  show "strip k = k" using assms(2) h l by (rule strip_id)
  have "\<not> is_space (CHR ''0'')" by (simp add: is_space_def)
  then show "strip (CHR ''0'' # CHR ''x'' # k) = CHR ''0'' # CHR ''x'' # k"
    using assms(2) l by (intro strip_id) simp_all
qed

lemma hex_no_prefix:
  assumes "all_hex k" "length k = 64"
  shows "\<not> startswith k ''0x''"
proof
  assume "startswith k ''0x''"
  then have "take (length ''0x'') k = ''0x''" by (simp only: startswith_def)
  then have "k = ''0x'' @ drop (length ''0x'') k" by (metis append_take_drop_id)
  then obtain r where "k = CHR ''0'' # CHR ''x'' # r" by simp
  then have "CHR ''x'' \<in> set k" by simp
  with all_hex_D [OF assms(1)] show False by fastforce
qed

lemma replace_0x_no_x: "CHR ''x'' \<notin> set s \<Longrightarrow> replace_0x s = s"
  by (induction s rule: replace_0x.induct) auto

lemma replace_0x_prefix: "replace_0x (''0x'' @ s) = replace_0x s"
  by simp

lemma all_hex_no_x: "all_hex k \<Longrightarrow> CHR ''x'' \<notin> set k"
  using all_hex_D by fastforce




lemma lower_char_hex_digits:
  "map lower_char ''0123456789abcdefABCDEF'' = ''0123456789abcdefabcdef''"
  by (simp add: lower_char_def)

lemma lower_hex_char:
  assumes "c \<in> set ''0123456789abcdefABCDEF''"
  shows "lower_char c \<in> set ''0123456789abcdef''"
proof -
  from assms have "lower_char c \<in> set (map lower_char ''0123456789abcdefABCDEF'')"
    by (simp only: set_map image_eqI)
  then have "lower_char c \<in> set ''0123456789abcdefabcdef''"
    by (simp only: lower_char_hex_digits)
  then show ?thesis by auto
qed

lemma lower_hex: "all_hex k \<Longrightarrow> all_lower_hex (lower k)"
  using lower_hex_char by (simp add: all_hex_def all_lower_hex_def lower_def list_all_iff)

lemma valid_key_format_hex: "length k = 64 \<Longrightarrow> all_hex k \<Longrightarrow> valid_key_format k"
  by (simp add: valid_key_format_def replace_0x_no_x all_hex_no_x lower_hex) (simp add: lower_def)










lemma load_accepts:
  assumes "length k = 64" "all_hex k" "wallet \<noteq> []" "fk (''0x'' @ k) = Some a"
    "lower a = lower wallet"
  shows "load_deployment_account fk (Some wallet) (Some k) = Continue a"
proof -
  have ne: "k \<noteq> []" using assms(1) by auto
  have np: "\<not> startswith k ''0x''" using assms by (simp add: hex_no_prefix)
  show ?thesis using assms np ne
    by (simp add: load_deployment_account_def strip_hex [OF assms(2) ne] Let_def)
qed



text \<open>
  C10. A key of 64 hex characters is treated alike with and without a leading \<open>0x\<close>:
  the module-level block of \<open>fix-oracle.py\<close> ends the same way and with the same
  account, the account initialisation of \<open>pythonUpdate.py\<close> hands the same string to
  the signing library, and the format check of \<open>uni-router.py\<close> accepts both.
\<close>

theorem key_prefix_irrelevant:
  assumes "length k = 64" and "all_hex k"
  shows "load_deployment_account fk wallet (Some (''0x'' @ k))
           = load_deployment_account fk wallet (Some k)
         \<and> initialize_account fk (''0x'' @ k) = initialize_account fk k
         \<and> valid_key_format (''0x'' @ k) \<and> valid_key_format k"
proof -
  have ne: "k \<noteq> []" using assms(1) by auto
  have np: "\<not> startswith k ''0x''" using assms by (simp add: hex_no_prefix)
  have p: "startswith (''0x'' @ k) ''0x''" by (simp add: startswith_def)
  have 1: "load_deployment_account fk wallet (Some (''0x'' @ k))
           = load_deployment_account fk wallet (Some k)"
    using np p ne
    by (cases wallet) (simp_all add: load_deployment_account_def strip_hex [OF assms(2) ne] Let_def)
  have 2: "initialize_account fk (''0x'' @ k) = initialize_account fk k"
    using np p by (simp add: initialize_account_def)
  have 3: "valid_key_format k" using assms by (rule valid_key_format_hex)
  have "valid_key_format (''0x'' @ k) = valid_key_format k"
    by (simp add: valid_key_format_def)
  with 1 2 3 show ?thesis by simp
qed

theorem key_prefix_irrelevant_witness:
  "length ''1111111111111111111111111111111111111111111111111111111111111111'' = 64 \<and> all_hex ''1111111111111111111111111111111111111111111111111111111111111111''
   \<and> load_deployment_account (\<lambda>s. Some ''0xAbC'') (Some ''0xaBc'') (Some (''0x'' @ ''1111111111111111111111111111111111111111111111111111111111111111''))
       = load_deployment_account (\<lambda>s. Some ''0xAbC'') (Some ''0xaBc'') (Some ''1111111111111111111111111111111111111111111111111111111111111111'')
   \<and> load_deployment_account (\<lambda>s. Some ''0xAbC'') (Some ''0xaBc'') (Some ''1111111111111111111111111111111111111111111111111111111111111111'')
       = Continue ''0xAbC''
   \<and> valid_key_format (''0x'' @ ''1111111111111111111111111111111111111111111111111111111111111111'')"
proof -
  have h: "length ''1111111111111111111111111111111111111111111111111111111111111111'' = 64" "all_hex ''1111111111111111111111111111111111111111111111111111111111111111''" by (simp_all add: all_hex_def)
  have a: "load_deployment_account (\<lambda>s. Some ''0xAbC'') (Some ''0xaBc'') (Some ''1111111111111111111111111111111111111111111111111111111111111111'')
       = Continue ''0xAbC''"
    by (rule load_accepts [OF h]) (simp_all add: lower_def lower_char_def)
  show ?thesis
    using h a key_prefix_irrelevant [OF h, of "\<lambda>s. Some ''0xAbC''" "Some ''0xaBc''"]
    by simp
qed





subsection \<open>The oracle update workflow\<close>

lemma hermes_healthy: "hermes_update_data (the (hermes healthy_world)) = Some [80, 78, 65, 85]"
  by (simp add: healthy_world_def hermes_update_data_def dict_get_def startswith_def
      hex_val_def is_ascii_space_def)

lemma fetch_healthy:
  "hermes w = hermes healthy_world \<Longrightarrow>
   fetch_hermes_data w = (Some [[80, 78, 65, 85]], [Call HermesLatest])"
  using hermes_healthy by (simp add: fetch_hermes_data_def prepend_def healthy_world_def)

lemma overflow_292: "int_too_large_for_float (17976931348623159 * 10 ^ 292)"
  by (simp add: int_too_large_for_float_def)

lemma read_overflowing:
  "test_price_reading overflowing_world i =
     (False, [Call GetPriceUnsafe, Say ''SUCCESS! Price reading works!'',
              Say ''Price reading failed''])"
  using overflow_292
  by (simp add: test_price_reading_def prepend_def overflowing_world_def healthy_world_def)

lemma update_overflowing:
  "update_price_feed overflowing_world a k u =
     (True, [Call GetUpdateFee, Call GetTransactionCount, Call EstimateGas, Call GasPrice,
             Call GetBalance,
             Call (SendRawTransaction \<lparr>tx_from = a, tx_nonce = 7, tx_gas = 150000,
                                        tx_gasPrice = 1000000000, tx_value = 1\<rparr>),
             Call WaitForTransactionReceipt, Say ''Price feed updated successfully!''])"
  by (simp add: update_price_feed_def prepend_def overflowing_world_def healthy_world_def
      from_wei_raises_def)

text \<open>
  When \<open>test_price_reading\<close> reports success at the first read, \<open>main\<close> ends in the state
  \<open>Succeeded\<close>, and the read is the only call of the run: the feed service is not asked
  and nothing is broadcast.
\<close>

lemma reported_success_short_circuits:
  assumes "fst (test_price_reading w 0)"
  shows "terminal_state (main_fix_oracle w a k) = Some Succeeded
         \<and> network_calls (main_fix_oracle w a k) = [GetPriceUnsafe]
         \<and> broadcasts (main_fix_oracle w a k) = []"
  using assms
  by (auto simp: main_fix_oracle_def test_price_reading_def prepend_def network_calls_def
      broadcasts_def terminal_state_def split: prod.splits option.splits if_splits)

text \<open>
  C3. If the initial read of the price succeeds, the workflow is meant to end in
  \<open>Succeeded\<close> without asking the feed service and without a broadcast. The script does
  not do so for every read that succeeds: \<open>test_price_reading\<close> prints its success line
  and then formats the scaled price, and when that raises it returns \<open>False\<close>. In the
  world below the view call answers \<open>(17976931348623159, 1, 292, 1)\<close>, the success line
  is printed, and the run nevertheless asks the feed service, broadcasts an update and
  ends in \<open>Failed VerificationTimeout\<close>.
\<close>

theorem successful_read_reported_as_failure:
  "getPriceUnsafe overflowing_world 0 = Some (17976931348623159, 1, 292, 1)
   \<and> main_fix_oracle overflowing_world ''0xA'' ''k'' =
       [Call GetPriceUnsafe, Say ''SUCCESS! Price reading works!'', Say ''Price reading failed'',
        Call HermesLatest,
        Call GetUpdateFee, Call GetTransactionCount, Call EstimateGas, Call GasPrice,
        Call GetBalance,
        Call (SendRawTransaction \<lparr>tx_from = ''0xA'', tx_nonce = 7, tx_gas = 150000,
                                   tx_gasPrice = 1000000000, tx_value = 1\<rparr>),
        Call WaitForTransactionReceipt, Say ''Price feed updated successfully!'',
        Call GetPriceUnsafe, Say ''SUCCESS! Price reading works!'', Say ''Price reading failed'',
        Say ''Fix may need more time to propagate'']
   \<and> terminal_state (main_fix_oracle overflowing_world ''0xA'' ''k'')
       = Some (Failed VerificationTimeout)"
proof -
  have f: "fetch_hermes_data overflowing_world = (Some [[80, 78, 65, 85]], [Call HermesLatest])"
    by (rule fetch_healthy) (simp add: overflowing_world_def)
  have m: "main_fix_oracle overflowing_world ''0xA'' ''k'' =
       [Call GetPriceUnsafe, Say ''SUCCESS! Price reading works!'', Say ''Price reading failed'',
        Call HermesLatest,
        Call GetUpdateFee, Call GetTransactionCount, Call EstimateGas, Call GasPrice,
        Call GetBalance,
        Call (SendRawTransaction \<lparr>tx_from = ''0xA'', tx_nonce = 7, tx_gas = 150000,
                                   tx_gasPrice = 1000000000, tx_value = 1\<rparr>),
        Call WaitForTransactionReceipt, Say ''Price feed updated successfully!'',
        Call GetPriceUnsafe, Say ''SUCCESS! Price reading works!'', Say ''Price reading failed'',
        Say ''Fix may need more time to propagate'']"
    by (simp add: main_fix_oracle_def read_overflowing f update_overflowing)
  have g: "getPriceUnsafe overflowing_world 0 = Some (17976931348623159, 1, 292, 1)"
    by (simp add: overflowing_world_def)
  show ?thesis unfolding m using g by (simp add: terminal_state_def)
qed

end
